theory Spec2Isabelle
  imports Main "HOL-Library.Sublist" "HOL-Library.Word"
begin

section \<open>FinSight: a Streamlit script that sends the text of a PDF to Gemini\<close>

text \<open>
  The program is \<^verbatim>\<open>src/app.py\<close>, one Streamlit script. Streamlit runs the whole script
  again on every interaction of the user; what survives between two runs is
  \<^verbatim>\<open>st.session_state\<close> and the two \<^verbatim>\<open>st.cache_data\<close> caches. One run of the script is
  modelled as a function from the state before the run, the outcome of the libraries
  during the run and the state of the widgets, to the state after the run and the list
  of effects of the run, in program order.
\<close>

subsection \<open>Strings, files, library outcomes\<close>

text \<open>
  A Python \<^verbatim>\<open>str\<close> is a sequence of Unicode code points and \<^verbatim>\<open>len\<close> counts them, so
  a \<^verbatim>\<open>str\<close> is a list of code points. \<open>U\<close> reads an ASCII literal; the few characters
  of the source beyond ASCII are written as their code points.
\<close>

type_synonym ustr = "nat list"

definition U :: "string \<Rightarrow> ustr" where
  "U s = map of_char s"

definition lines_of :: "string list \<Rightarrow> ustr" where
  "lines_of ls = concat (map (\<lambda>l. U l @ [10]) ls)"

text \<open>The object that \<^verbatim>\<open>st.file_uploader\<close> returns: a name and the bytes.\<close>

record uploaded_file =
  name :: ustr
  getvalue :: "8 word list"

text \<open>
  What \<^verbatim>\<open>page.extract_text()\<close> does on one page: it raises (the message of the
  exception is kept), or it returns a string, or \<^verbatim>\<open>None\<close>.
\<close>

datatype page = ExtractRaises ustr | ExtractReturns "ustr option"

text \<open>
  A value that \<^verbatim>\<open>json.loads\<close> returns; \<open>JNull\<close> is Python's \<^verbatim>\<open>None\<close>. A number is
  kept as its literal: the script never computes with one.
\<close>

datatype json =
    JNull
  | JBool bool
  | JNum ustr
  | JStr ustr
  | JArr "json list"
  | JObj "(ustr \<times> json) list"

text \<open>\<^verbatim>\<open>st.secrets["google_api_key"]\<close>: the key, or one of the two exceptions of line 40.\<close>

datatype secret_lookup = Found ustr | KeyError | FileNotFoundError

text \<open>
  The libraries during one run. An \<open>Inl\<close> is a raised \<^verbatim>\<open>Exception\<close> with its message.
  \<^item> \<open>pdfplumber_open\<close>: \<^verbatim>\<open>pdfplumber.open(file_bytes)\<close> and \<^verbatim>\<open>pdf.pages\<close>;
  \<^item> \<open>generate_content\<close>: \<^verbatim>\<open>model.generate_content(prompt, ...)\<close> and \<^verbatim>\<open>response.text\<close>;
  \<^item> \<open>json_loads\<close>: \<^verbatim>\<open>json.loads\<close>.
\<close>

record env =
  secrets_google_api_key :: secret_lookup
  pdfplumber_open :: "8 word list \<Rightarrow> ustr + page list"
  generate_content :: "ustr \<Rightarrow> ustr + ustr"
  json_loads :: "ustr \<Rightarrow> ustr + json"

subsection \<open>Effects\<close>

text \<open>
  The calls of the script that reach the user or a library, in program order.
  \<open>StError\<close> carries the message and the icon; \<open>GenerateContent\<close> the model name, the
  prompt and the response MIME type.
\<close>

datatype effect =
    SetPageConfig ustr ustr string string
  | StMarkdown ustr
  | StTitle ustr
  | StError ustr ustr
  | StInfo ustr
  | StFileUploader
  | StButton
  | GenaiConfigure ustr
  | PdfOpen "8 word list"
  | GenerateContent string ustr string

text \<open>The Streamlit elements among the effects: what a cached function replays on a hit.\<close>

fun is_element :: "effect \<Rightarrow> bool" where
  "is_element (SetPageConfig _ _ _ _) = False"
| "is_element (StMarkdown _) = True"
| "is_element (StTitle _) = True"
| "is_element (StError _ _) = True"
| "is_element (StInfo _) = True"
| "is_element StFileUploader = False"
| "is_element StButton = False"
| "is_element (GenaiConfigure _) = False"
| "is_element (PdfOpen _) = False"
| "is_element (GenerateContent _ _ _) = False"

fun is_remote_call :: "effect \<Rightarrow> bool" where
  "is_remote_call (GenerateContent _ _ _) = True"
| "is_remote_call _ = False"

fun is_extraction :: "effect \<Rightarrow> bool" where
  "is_extraction (PdfOpen _) = True"
| "is_extraction _ = False"

fun is_error :: "effect \<Rightarrow> bool" where
  "is_error (StError _ _) = True"
| "is_error _ = False"

subsection \<open>The decorator \<^verbatim>\<open>st.cache_data\<close>\<close>

text \<open>
  \<^verbatim>\<open>st.cache_data\<close> keeps one table for each decorated function. The key of a call is made
  of its arguments, each with the name of its parameter, \<^emph>\<open>except the arguments whose
  parameter name starts with an underscore\<close>: Streamlit does not hash those. The entry
  of a key holds the value the function returned and the elements it showed; a later
  call with the same key does not run the body: it returns the value and shows the
  elements again. The tables have no limit and no expiry here (the decorators of lines
  48 and 69 give only \<^verbatim>\<open>show_spinner\<close>).
\<close>

type_synonym ('k, 'v) cache = "'k list \<rightharpoonup> 'v \<times> effect list"

definition value_key :: "(string \<times> 'k) list \<Rightarrow> 'k list" where
  "value_key arg_pairs = map snd (filter (\<lambda>(arg_name, _). \<not> prefix ''_'' arg_name) arg_pairs)"

definition cache_data ::
  "('k, 'v) cache \<Rightarrow> (string \<times> 'k) list \<Rightarrow> 'v \<times> effect list \<Rightarrow> ('v \<times> effect list) \<times> ('k, 'v) cache" where
  "cache_data c arg_pairs body =
     (let k = value_key arg_pairs in
      case c k of
        Some cached \<Rightarrow> (cached, c)
      | None \<Rightarrow> (body, c(k \<mapsto> (fst body, filter is_element (snd body)))))"

subsection \<open>\<^verbatim>\<open>extract_text_from_pdf\<close> (lines 48 to 67)\<close>

text \<open>
  The loop of lines 60 to 63, with \<open>full_text\<close> as accumulator. \<^verbatim>\<open>if page_text:\<close> is
  false on \<^verbatim>\<open>None\<close> and on the empty string. An exception of \<^verbatim>\<open>extract_text\<close> leaves
  the loop (\<open>Inl\<close>).
\<close>

fun extract_pages :: "page list \<Rightarrow> ustr \<Rightarrow> ustr + ustr" where
  "extract_pages [] full_text = Inr full_text"
| "extract_pages (ExtractRaises ex # ps) full_text = Inl ex"
| "extract_pages (ExtractReturns None # ps) full_text = extract_pages ps full_text"
| "extract_pages (ExtractReturns (Some page_text) # ps) full_text =
     extract_pages ps (if page_text \<noteq> [] then full_text @ page_text @ [10] else full_text)"

text \<open>Lines 57 to 64, what the \<^verbatim>\<open>try\<close> block computes: an exception or \<open>full_text\<close>.\<close>

definition read_pdf :: "env \<Rightarrow> 8 word list \<Rightarrow> ustr + ustr" where
  "read_pdf e file_bytes =
     (case pdfplumber_open e file_bytes of
        Inl ex \<Rightarrow> Inl ex
      | Inr pages \<Rightarrow> extract_pages pages [])"

definition extraction_error :: "ustr \<Rightarrow> effect" where
  "extraction_error ex = StError (U ''Error extracting text from PDF: '' @ ex) []"

text \<open>
  The body of the function: the value it returns and its effects. The handler of line
  65 catches every \<^verbatim>\<open>Exception\<close> of the block.
\<close>

definition extract_text_from_pdf_body :: "env \<Rightarrow> uploaded_file option \<Rightarrow> ustr \<times> effect list" where
  "extract_text_from_pdf_body e uploaded_file =
     (case uploaded_file of
        None \<Rightarrow> ([], [])
      | Some f \<Rightarrow>
          (case read_pdf e (getvalue f) of
             Inl ex \<Rightarrow> ([], [PdfOpen (getvalue f), extraction_error ex])
           | Inr full_text \<Rightarrow> (full_text, [PdfOpen (getvalue f)])))"

text \<open>
  The decorated function. Streamlit hashes an uploaded file by its name, its position
  and its bytes; the script never moves the position, so the key is the file itself.
\<close>

definition extract_text_from_pdf ::
  "env \<Rightarrow> (uploaded_file option, ustr) cache \<Rightarrow> uploaded_file option
     \<Rightarrow> (ustr \<times> effect list) \<times> (uploaded_file option, ustr) cache" where
  "extract_text_from_pdf e c uploaded_file =
     cache_data c [(''uploaded_file'', uploaded_file)] (extract_text_from_pdf_body e uploaded_file)"

subsection \<open>\<^verbatim>\<open>analyze_financial_text_with_gemini\<close> (lines 69 to 137)\<close>

text \<open>
  The f-string of lines 79 to 123: the text before the placeholder, one source line for
  each entry (\<^verbatim>\<open>{{\<close> and \<^verbatim>\<open>}}\<close> of the f-string are single braces), and the text
  after it.
\<close>

definition prompt_before :: ustr where
  \<open>prompt_before = [10] @ lines_of [
    ''    You are an expert financial analyst AI named FinSight, powered by Google Gemini.'',
    ''    Your task is to analyze the financial text from a company's report.'',
    ''    '',
    ''    **Instructions**:'',
    ''    1.  **Executive Summary**: Write a concise, professional summary of the company's financial health, performance, and position based on the provided text. Highlight key strengths, weaknesses, opportunities, and threats if they are apparent.'',
    ''    2.  **Key Ratios**: Calculate the following financial ratios if the data is available. If a value cannot be calculated from the text, return "N/A".'',
    ''        - Current Ratio (Current Assets / Current Liabilities)'',
    ''        - Debt-to-Equity Ratio (Total Liabilities / Total Equity)'',
    ''        - Net Profit Margin (Net Income / Total Revenue)'',
    ''        - Return on Equity (ROE) (Net Income / Total Equity)'',
    ''    3.  **Data Extraction**: Extract the key figures for the most recent year available from the Income Statement and Balance Sheet. If a specific figure is not found, its value should be null.'',
    '''',
    ''    Your entire response **MUST** be a single, valid JSON object. Do not include any text or markdown before or after the JSON object.'',
    '''',
    ''    The required JSON structure is:'',
    ''    {'',
    ''      "executive_summary": "Your detailed summary here.",'',
    ''      "key_ratios": {'',
    ''        "Current Ratio": "X.XX",'',
    ''        "Debt-to-Equity Ratio": "X.XX",'',
    ''        "Net Profit Margin": "XX.X%",'',
    ''        "Return on Equity (ROE)": "XX.X%"'',
    ''      },'',
    ''      "extracted_data": {'',
    ''        "Income Statement": {'',
    ''          "Total Revenue": 1000000,'',
    ''          "Net Income": 100000'',
    ''        },'',
    ''        "Balance Sheet": {'',
    ''          "Total Current Assets": 500000,'',
    ''          "Total Current Liabilities": 250000,'',
    ''          "Total Liabilities": 400000,'']
    @ U ''          "Total Stockholders'' @ [8217] @ U '' Equity": 600000'' @ [10]
    @ lines_of [
    ''        }'',
    ''      }'',
    ''    }'',
    ''    '',
    ''    **Financial Text to Analyze**:'',
    ''    ---'']
    @ U ''    ''\<close>

definition prompt_after :: ustr where
  \<open>prompt_after = U '' '' @ [10] @ lines_of [
    ''    ---'',
    ''    '',
    ''    Now, provide the JSON response.'']
    @ U ''    ''\<close>

definition prompt :: "ustr \<Rightarrow> ustr" where
  "prompt text_chunk = prompt_before @ text_chunk @ prompt_after"

definition analysis_error :: "ustr \<Rightarrow> effect" where
  "analysis_error ex = StError (U ''Error during AI analysis with Gemini: '' @ ex) [128293]"

definition remote_call :: "ustr \<Rightarrow> effect" where
  "remote_call text_chunk = GenerateContent ''gemini-2.0-flash'' (prompt text_chunk) ''application/json''"

text \<open>The body: \<^verbatim>\<open>None\<close> is \<open>JNull\<close>. Both failures end in the handler of line 135.\<close>

definition analyze_financial_text_with_gemini_body :: "env \<Rightarrow> ustr \<Rightarrow> json \<times> effect list" where
  "analyze_financial_text_with_gemini_body e text_chunk =
     (case generate_content e (prompt text_chunk) of
        Inl ex \<Rightarrow> (JNull, [remote_call text_chunk, analysis_error ex])
      | Inr response_text \<Rightarrow>
          (case json_loads e response_text of
             Inl ex \<Rightarrow> (JNull, [remote_call text_chunk, analysis_error ex])
           | Inr result_json \<Rightarrow> (result_json, [remote_call text_chunk])))"

text \<open>
  The decorated function. Its only parameter is \<^verbatim>\<open>_text_chunk\<close>, with an underscore, so
  the key of every call is the empty list of arguments.
\<close>

definition analyze_financial_text_with_gemini ::
  "env \<Rightarrow> (ustr, json) cache \<Rightarrow> ustr \<Rightarrow> (json \<times> effect list) \<times> (ustr, json) cache" where
  "analyze_financial_text_with_gemini e c text_chunk =
     cache_data c [(''_text_chunk'', text_chunk)] (analyze_financial_text_with_gemini_body e text_chunk)"

subsection \<open>The script\<close>

text \<open>
  What survives a run: the two entries of \<^verbatim>\<open>st.session_state\<close> (lines 145 to 148 set
  both to \<^verbatim>\<open>None\<close> on the first run of a session) and the two caches.
\<close>

record app_state =
  analysis_result :: json
  last_file_name :: "ustr option"
  extract_cache :: "(uploaded_file option, ustr) cache"
  analyze_cache :: "(ustr, json) cache"

definition initial_state :: app_state where
  "initial_state = \<lparr>analysis_result = JNull, last_file_name = None,
     extract_cache = Map.empty, analyze_cache = Map.empty\<rparr>"

text \<open>The widgets in one run: the file in the uploader, and whether the button was pressed.\<close>

record interaction =
  uploaded :: "uploaded_file option"
  clicked :: bool

text \<open>Lines 158 to 160.\<close>

definition upload_handling :: "app_state \<Rightarrow> uploaded_file \<Rightarrow> app_state" where
  "upload_handling s f =
     (if last_file_name s \<noteq> Some (name f)
      then s\<lparr>analysis_result := JNull, last_file_name := Some (name f)\<rparr>
      else s)"

definition insufficient_text_error :: effect where
  "insufficient_text_error =
     StError (U ''Could not extract sufficient text from the document. Please try another file.'') [128196]"

text \<open>Lines 163 to 170, the branch of the pressed button.\<close>

definition analyze_flow :: "env \<Rightarrow> app_state \<Rightarrow> uploaded_file \<Rightarrow> app_state \<times> effect list" where
  "analyze_flow e s f =
     (let ((full_text, fx1), c1) = extract_text_from_pdf e (extract_cache s) (Some f);
          s1 = s\<lparr>extract_cache := c1\<rparr>
      in if full_text \<noteq> [] \<and> length full_text > 100
         then (let ((result, fx2), c2) = analyze_financial_text_with_gemini e (analyze_cache s1) full_text
               in (s1\<lparr>analyze_cache := c2, analysis_result := result\<rparr>, fx1 @ fx2))
         else (s1\<lparr>analysis_result := JNull\<rparr>, fx1 @ [insufficient_text_error]))"

text \<open>Lines 141 to 154: the title, the invitation, the uploader.\<close>

definition header :: "effect list" where
  "header =
     [StTitle (U ''FinSight AI '' @ [9889] @ U '' Gemini Edition''),
      StMarkdown (U ''Upload a company's financial report (PDF) to receive an instant, AI-powered analysis.''),
      StFileUploader]"

text \<open>Lines 141 to 170. The button exists only while a file is in the uploader.\<close>

definition main_interface :: "env \<Rightarrow> app_state \<Rightarrow> interaction \<Rightarrow> app_state \<times> effect list" where
  "main_interface e s i =
     (case uploaded i of
        None \<Rightarrow> (s, header)
      | Some f \<Rightarrow>
          (let s1 = upload_handling s f in
           if clicked i
           then (let (s2, fx) = analyze_flow e s1 f in (s2, header @ [StButton] @ fx))
           else (s1, header @ [StButton])))"

definition style_block :: ustr where
  \<open>style_block = [10] @ lines_of [
    ''<style>'',
    ''    .reportview-container {'',
    ''        margin-top: -2em;'',
    ''    }'',
    ''    #MainMenu {visibility: hidden;}'',
    ''    .stDeployButton {display:none;}'',
    ''    footer {visibility: hidden;}'',
    ''    #stDecoration {display:none;}'',
    ''    .stAlert {'',
    ''        border-radius: 0.5rem;'',
    ''    }'',
    ''    .stButton>button {'',
    ''        border-radius: 0.5rem;'',
    ''        font-weight: bold;'',
    ''    }'',
    ''</style>'']\<close>

definition page_setup :: "effect list" where
  "page_setup =
     [SetPageConfig (U ''FinSight AI '' @ [9889] @ U '' Gemini Edition'') [9889] ''wide'' ''collapsed'',
      StMarkdown style_block]"

definition configuration_errors :: "effect list" where
  "configuration_errors =
     [StError ([9888, 65039] @ U '' **Warning:** Google API key not found in Streamlit secrets.'') [128680],
      StInfo (U ''Please add your Google API key to your Streamlit secrets to continue. Name it `google_api_key`.'')]"

text \<open>
  One run of the script, lines 8 to 170; \<^verbatim>\<open>st.stop()\<close> of line 43 ends the run. The
  rest of the script (lines 172 to 198) shows the stored result and writes nothing to
  the state.
\<close>

definition run_script :: "env \<Rightarrow> app_state \<Rightarrow> interaction \<Rightarrow> app_state \<times> effect list" where
  "run_script e s i =
     (case secrets_google_api_key e of
        Found api_key \<Rightarrow>
          (let (s', fx) = main_interface e s i in (s', page_setup @ [GenaiConfigure api_key] @ fx))
      | KeyError \<Rightarrow> (s, page_setup @ configuration_errors)
      | FileNotFoundError \<Rightarrow> (s, page_setup @ configuration_errors))"

text \<open>A session: the runs one after the other; the effects of all of them, in order.\<close>

fun run_session :: "app_state \<Rightarrow> (env \<times> interaction) list \<Rightarrow> app_state \<times> effect list" where
  "run_session s [] = (s, [])"
| "run_session s ((e, i) # rest) =
     (let (s1, fx1) = run_script e s i;
          (s2, fx2) = run_session s1 rest
      in (s2, fx1 @ fx2))"

subsection \<open>Notions of the statements\<close>

text \<open>
  What one page adds to the extracted text: its text and a newline, or nothing when the
  page has no text.
\<close>

fun page_contribution :: "ustr option \<Rightarrow> ustr" where
  "page_contribution None = []"
| "page_contribution (Some page_text) = (if page_text = [] then [] else page_text @ [10])"

text \<open>
  The cache of \<^verbatim>\<open>extract_text_from_pdf\<close> holds what the function stored there: every entry
  is the value and the elements of the body on the file of its key. (pdfplumber computes
  the same pages from the same bytes.)
\<close>

definition extract_cache_consistent :: "env \<Rightarrow> (uploaded_file option, ustr) cache \<Rightarrow> bool" where
  "extract_cache_consistent e c =
     (\<forall>k cached. c k = Some cached \<longrightarrow>
        (\<exists>uploaded_file. k = [uploaded_file] \<and>
           cached = (fst (extract_text_from_pdf_body e uploaded_file),
                     filter is_element (snd (extract_text_from_pdf_body e uploaded_file)))))"

text \<open>
  The stored result comes from the cache of the analysis: it is \<^verbatim>\<open>None\<close>, or it is the
  value of the entry of that cache. (Line 167 stores what the decorated function
  returned, and the decorated function returns what is, or then becomes, the entry.)
\<close>

definition result_from_cache :: "app_state \<Rightarrow> bool" where
  "result_from_cache s =
     (case analyze_cache s [] of
        None \<Rightarrow> analysis_result s = JNull
      | Some cached \<Rightarrow> analysis_result s = JNull \<or> analysis_result s = fst cached)"

subsection \<open>Concrete inputs\<close>

text \<open>
  Libraries that work: a file without bytes is not a PDF, any other file has one page
  whose text is its bytes; the service answers with the prompt it received, and every
  answer parses as a JSON string.
\<close>

definition working_env :: env where
  "working_env = \<lparr>
     secrets_google_api_key = Found (U ''secret''),
     pdfplumber_open = (\<lambda>file_bytes.
        if file_bytes = [] then Inl (U ''No /Root object! - Is this really a PDF?'')
        else Inr [ExtractReturns (Some (map unat file_bytes))]),
     generate_content = (\<lambda>prompt_text. Inr prompt_text),
     json_loads = (\<lambda>response_text. Inr (JStr response_text))\<rparr>"



definition unconfigured_env :: env where
  "unconfigured_env = working_env\<lparr>secrets_google_api_key := KeyError\<rparr>"

definition two_page_env :: env where
  "two_page_env = working_env\<lparr>pdfplumber_open := (\<lambda>file_bytes.
     Inr [ExtractReturns (Some (U ''Revenue: 100'')), ExtractReturns (Some (U ''Net Income: 10''))])\<rparr>"

definition blank_page_env :: env where
  "blank_page_env = working_env\<lparr>pdfplumber_open := (\<lambda>file_bytes.
     Inr [ExtractReturns (Some (U ''Revenue: 100'')), ExtractReturns None,
          ExtractReturns (Some []), ExtractReturns (Some (U ''Net Income: 10''))])\<rparr>"

definition broken_page_env :: env where
  "broken_page_env = working_env\<lparr>pdfplumber_open := (\<lambda>file_bytes.
     Inr [ExtractReturns (Some (U ''Revenue: 100'')), ExtractRaises (U ''Unsupported encoding''),
          ExtractReturns (Some (U ''Net Income: 10''))])\<rparr>"

definition no_page_env :: env where
  "no_page_env = working_env\<lparr>pdfplumber_open := (\<lambda>file_bytes. Inr [])\<rparr>"

text \<open>Two files of the same name and different bytes, a short file, a short file of that same
  name, a file without bytes.\<close>

definition report_a :: uploaded_file where
  "report_a = \<lparr>name = U ''report.pdf'', getvalue = replicate 101 65\<rparr>"

definition report_b :: uploaded_file where
  "report_b = \<lparr>name = U ''report.pdf'', getvalue = replicate 101 66\<rparr>"

definition short_file :: uploaded_file where
  "short_file = \<lparr>name = U ''short.pdf'', getvalue = [65, 66, 67]\<rparr>"

definition short_report :: uploaded_file where
  "short_report = \<lparr>name = U ''report.pdf'', getvalue = [65, 66, 67]\<rparr>"

definition empty_file :: uploaded_file where
  "empty_file = \<lparr>name = U ''empty.pdf'', getvalue = []\<rparr>"

text \<open>A session of two runs: the button is pressed on the first file, then on the second.\<close>

definition two_reports_session :: "(env \<times> interaction) list" where
  "two_reports_session =
     [(working_env, \<lparr>uploaded = Some report_a, clicked = True\<rparr>),
      (working_env, \<lparr>uploaded = Some report_b, clicked = True\<rparr>)]"

text \<open>A session that shows a result for \<^verbatim>\<open>report.pdf\<close>, with nothing in the caches.\<close>

definition shown_state :: app_state where
  "shown_state = \<lparr>analysis_result = JObj [(U ''executive_summary'', JStr (U ''Sound.''))],
     last_file_name = Some (U ''report.pdf''),
     extract_cache = Map.empty, analyze_cache = Map.empty\<rparr>"

section \<open>Properties\<close>

subsection \<open>The cache keys\<close>

lemma value_key_uploaded_file: "value_key [(''uploaded_file'', x)] = [x]"
  by (simp add: value_key_def)

lemma value_key_text_chunk: "value_key [(''_text_chunk'', x)] = []"
  by (simp add: value_key_def)

subsection \<open>The document loader\<close>

lemma extract_pages_returns:
  "extract_pages (map ExtractReturns texts) acc = Inr (acc @ concat (map page_contribution texts))"
proof (induction texts arbitrary: acc)
  case Nil
  show ?case by simp
next
  case (Cons t texts)
  show ?case by (cases t) (simp_all add: Cons.IH)
qed

lemma extract_hit:
  assumes "extract_cache_consistent e c" and "c [uf] = Some cached"
  shows "cached = (fst (extract_text_from_pdf_body e uf),
                   filter is_element (snd (extract_text_from_pdf_body e uf)))"
proof -
  from assms obtain u where "[uf] = [u]"
    and "cached = (fst (extract_text_from_pdf_body e u),
                   filter is_element (snd (extract_text_from_pdf_body e u)))"
    unfolding extract_cache_consistent_def by blast
  then show ?thesis by simp
qed

lemma extract_value_consistent:
  assumes "extract_cache_consistent e c"
  shows "fst (fst (extract_text_from_pdf e c uf)) = fst (extract_text_from_pdf_body e uf)"
proof (cases "c [uf]")
  case None
  then show ?thesis
    by (simp add: extract_text_from_pdf_def cache_data_def value_key_uploaded_file)
next
  case (Some cached)
  with extract_hit [OF assms Some] show ?thesis
    by (simp add: extract_text_from_pdf_def cache_data_def value_key_uploaded_file)
qed

lemma extract_elements_consistent:
  assumes "extract_cache_consistent e c"
  shows "filter is_element (snd (fst (extract_text_from_pdf e c uf)))
           = filter is_element (snd (extract_text_from_pdf_body e uf))"
proof (cases "c [uf]")
  case None
  then show ?thesis
    by (simp add: extract_text_from_pdf_def cache_data_def value_key_uploaded_file)
next
  case (Some cached)
  with extract_hit [OF assms Some] show ?thesis
    by (simp add: extract_text_from_pdf_def cache_data_def value_key_uploaded_file)
qed

lemma extract_cache_stays_consistent:
  assumes "extract_cache_consistent e c"
  shows "extract_cache_consistent e (snd (extract_text_from_pdf e c uf))"
proof (cases "c [uf]")
  case None
  with assms show ?thesis
    unfolding extract_cache_consistent_def
    by (auto simp: extract_text_from_pdf_def cache_data_def value_key_uploaded_file)
next
  case (Some cached)
  with assms show ?thesis
    by (simp add: extract_text_from_pdf_def cache_data_def value_key_uploaded_file)
qed

lemma extract_cache_consistent_empty: "extract_cache_consistent e Map.empty"
  by (simp add: extract_cache_consistent_def)

text \<open>
  Claim C3. When pdfplumber opens the file and \<^verbatim>\<open>extract_text\<close> returns on every page,
  the text that \<^verbatim>\<open>extract_text_from_pdf\<close> returns is the concatenation, in page order, of
  what each page contributes: its text and a newline, and nothing for a page without
  text. When every page has text, it is the concatenation of each text followed by a
  newline.
\<close>

theorem extracted_text_is_page_concatenation:
  assumes "extract_cache_consistent e c"
    and "pdfplumber_open e (getvalue f) = Inr (map ExtractReturns texts)"
  shows "fst (fst (extract_text_from_pdf e c (Some f))) = concat (map page_contribution texts)
       \<and> ((\<forall>t \<in> set texts. t \<noteq> None \<and> t \<noteq> Some []) \<longrightarrow>
            fst (fst (extract_text_from_pdf e c (Some f))) = concat (map (\<lambda>t. the t @ [10]) texts))"
proof -
  have body: "fst (extract_text_from_pdf_body e (Some f)) = concat (map page_contribution texts)"
    using assms(2) by (simp add: extract_text_from_pdf_body_def read_pdf_def extract_pages_returns)
  have all_text: "concat (map page_contribution texts) = concat (map (\<lambda>t. the t @ [10]) texts)"
    if "\<forall>t \<in> set texts. t \<noteq> None \<and> t \<noteq> Some []"
  proof -
    have "map page_contribution texts = map (\<lambda>t. the t @ [10]) texts"
    proof (intro map_cong refl)
      fix t assume "t \<in> set texts"
      with that have "t \<noteq> None" and "t \<noteq> Some []" by auto
      then show "page_contribution t = the t @ [10]" by (cases t) auto
    qed
    then show ?thesis by (rule arg_cong)
  qed
  show ?thesis
    using body all_text by (simp add: extract_value_consistent [OF assms(1)])
qed

theorem extracted_text_is_page_concatenation_witness:
  "extract_cache_consistent two_page_env Map.empty
   \<and> pdfplumber_open two_page_env (getvalue report_a)
       = Inr (map ExtractReturns [Some (U ''Revenue: 100''), Some (U ''Net Income: 10'')])
   \<and> Some (U ''Revenue: 100'') \<noteq> Some [] \<and> Some (U ''Net Income: 10'') \<noteq> Some []
   \<and> concat (map (\<lambda>t. the t @ [10]) [Some (U ''Revenue: 100''), Some (U ''Net Income: 10'')])
       = U ''Revenue: 100'' @ [10] @ U ''Net Income: 10'' @ [10]
   \<and> fst (fst (extract_text_from_pdf two_page_env Map.empty (Some report_a)))
       = U ''Revenue: 100'' @ [10] @ U ''Net Income: 10'' @ [10]
   \<and> extract_cache_consistent blank_page_env Map.empty
   \<and> pdfplumber_open blank_page_env (getvalue report_a)
       = Inr (map ExtractReturns [Some (U ''Revenue: 100''), None, Some [], Some (U ''Net Income: 10'')])
   \<and> fst (fst (extract_text_from_pdf blank_page_env Map.empty (Some report_a)))
       = U ''Revenue: 100'' @ [10] @ U ''Net Income: 10'' @ [10]"
proof -
  have h1: "extract_cache_consistent two_page_env Map.empty"
    and h3: "extract_cache_consistent blank_page_env Map.empty"
    by (simp_all add: extract_cache_consistent_def)
  have h2: "pdfplumber_open two_page_env (getvalue report_a)
       = Inr (map ExtractReturns [Some (U ''Revenue: 100''), Some (U ''Net Income: 10'')])"
    by (simp add: two_page_env_def working_env_def)
  have h4: "pdfplumber_open blank_page_env (getvalue report_a)
       = Inr (map ExtractReturns [Some (U ''Revenue: 100''), None, Some [], Some (U ''Net Income: 10'')])"
    by (simp add: blank_page_env_def working_env_def)
  show ?thesis
    using extracted_text_is_page_concatenation [OF h1 h2]
      extracted_text_is_page_concatenation [OF h3 h4] h1 h2 h3 h4
    by (simp add: U_def)
qed

text \<open>
  Every list of pages is one of two: \<^verbatim>\<open>extract_text\<close> returns on all pages, or there is
  a first page on which it raises.
\<close>

lemma extract_pages_raises:
  "extract_pages (map ExtractReturns texts @ ExtractRaises ex # rest) acc = Inl ex"
proof (induction texts arbitrary: acc)
  case Nil
  show ?case by simp
next
  case (Cons t texts)
  show ?case by (cases t) (simp_all add: Cons.IH)
qed

lemma pages_shape:
  "(\<exists>texts. pages = map ExtractReturns texts)
   \<or> (\<exists>texts ex rest. pages = map ExtractReturns texts @ ExtractRaises ex # rest)"
proof (induction pages)
  case Nil
  have "[] = map ExtractReturns []" by simp
  then show ?case by (intro disjI1 exI)
next
  case (Cons p pages)
  show ?case
  proof (cases p)
    case (ExtractRaises ex)
    then have "p # pages = map ExtractReturns [] @ ExtractRaises ex # pages" by simp
    then show ?thesis by (intro disjI2 exI)
  next
    case (ExtractReturns t)
    from Cons.IH show ?thesis
    proof (elim disjE exE)
      fix texts
      assume "pages = map ExtractReturns texts"
      with ExtractReturns have "p # pages = map ExtractReturns (t # texts)" by simp
      then show ?thesis by (intro disjI1 exI)
    next
      fix texts ex rest
      assume "pages = map ExtractReturns texts @ ExtractRaises ex # rest"
      with ExtractReturns have "p # pages = map ExtractReturns (t # texts) @ ExtractRaises ex # rest"
        by simp
      then show ?thesis by (intro disjI2 exI)
    qed
  qed
qed

text \<open>
  Claim C6. \<^verbatim>\<open>extract_text_from_pdf\<close> returns a value on every input: the handler of line
  65 catches every exception of the \<^verbatim>\<open>try\<close> block. When pdfplumber raises on opening
  the file, or \<^verbatim>\<open>extract_text\<close> raises on some page after any number of pages on which
  it returned, the function returns the empty string and shows the error with the
  message of the exception; when the PDF has no pages, it returns the empty string.
\<close>

theorem extraction_failure_gives_empty_text:
  assumes "extract_cache_consistent e c"
  shows "(pdfplumber_open e (getvalue f) = Inl ex
          \<or> pdfplumber_open e (getvalue f) = Inr (map ExtractReturns texts @ ExtractRaises ex # rest)
          \<longrightarrow> fst (fst (extract_text_from_pdf e c (Some f))) = []
            \<and> extraction_error ex \<in> set (snd (fst (extract_text_from_pdf e c (Some f)))))
       \<and> (pdfplumber_open e (getvalue f) = Inr [] \<longrightarrow>
            fst (fst (extract_text_from_pdf e c (Some f))) = [])"
proof (intro conjI impI)
  assume "pdfplumber_open e (getvalue f) = Inl ex
          \<or> pdfplumber_open e (getvalue f) = Inr (map ExtractReturns texts @ ExtractRaises ex # rest)"
  then have fails: "read_pdf e (getvalue f) = Inl ex"
    by (auto simp: read_pdf_def extract_pages_raises)
  then show "fst (fst (extract_text_from_pdf e c (Some f))) = []"
    by (simp add: extract_value_consistent [OF assms] extract_text_from_pdf_body_def)
  have "filter is_element (snd (fst (extract_text_from_pdf e c (Some f)))) = [extraction_error ex]"
    using fails
    by (simp add: extract_elements_consistent [OF assms] extract_text_from_pdf_body_def extraction_error_def)
  then have "extraction_error ex \<in> set (filter is_element (snd (fst (extract_text_from_pdf e c (Some f)))))"
    by simp
  then show "extraction_error ex \<in> set (snd (fst (extract_text_from_pdf e c (Some f))))"
    by simp
next
  assume "pdfplumber_open e (getvalue f) = Inr []"
  then show "fst (fst (extract_text_from_pdf e c (Some f))) = []"
    by (simp add: extract_value_consistent [OF assms] extract_text_from_pdf_body_def read_pdf_def)
qed

theorem extraction_failure_gives_empty_text_witness:
  "extract_cache_consistent working_env Map.empty
   \<and> pdfplumber_open working_env (getvalue empty_file) = Inl (U ''No /Root object! - Is this really a PDF?'')
   \<and> fst (fst (extract_text_from_pdf working_env Map.empty (Some empty_file))) = []
   \<and> extraction_error (U ''No /Root object! - Is this really a PDF?'')
        \<in> set (snd (fst (extract_text_from_pdf working_env Map.empty (Some empty_file))))
   \<and> extract_cache_consistent broken_page_env Map.empty
   \<and> pdfplumber_open broken_page_env (getvalue report_a)
        = Inr (map ExtractReturns [Some (U ''Revenue: 100'')] @ ExtractRaises (U ''Unsupported encoding'')
               # [ExtractReturns (Some (U ''Net Income: 10''))])
   \<and> fst (fst (extract_text_from_pdf broken_page_env Map.empty (Some report_a))) = []
   \<and> extraction_error (U ''Unsupported encoding'')
        \<in> set (snd (fst (extract_text_from_pdf broken_page_env Map.empty (Some report_a))))
   \<and> extract_cache_consistent no_page_env Map.empty
   \<and> pdfplumber_open no_page_env (getvalue report_a) = Inr []
   \<and> fst (fst (extract_text_from_pdf no_page_env Map.empty (Some report_a))) = []"
proof -
  have h1: "extract_cache_consistent working_env Map.empty"
    and h2: "extract_cache_consistent broken_page_env Map.empty"
    and h3: "extract_cache_consistent no_page_env Map.empty"
    by (simp_all add: extract_cache_consistent_def)
  have o1: "pdfplumber_open working_env (getvalue empty_file) = Inl (U ''No /Root object! - Is this really a PDF?'')"
    by (simp add: working_env_def empty_file_def)
  have o2: "pdfplumber_open broken_page_env (getvalue report_a)
        = Inr (map ExtractReturns [Some (U ''Revenue: 100'')] @ ExtractRaises (U ''Unsupported encoding'')
               # [ExtractReturns (Some (U ''Net Income: 10''))])"
    by (simp add: broken_page_env_def working_env_def)
  have o3: "pdfplumber_open no_page_env (getvalue report_a) = Inr []"
    by (simp add: no_page_env_def working_env_def)
  from o1 have d1: "pdfplumber_open working_env (getvalue empty_file)
        = Inl (U ''No /Root object! - Is this really a PDF?'')
      \<or> pdfplumber_open working_env (getvalue empty_file)
        = Inr (map ExtractReturns [] @ ExtractRaises (U ''No /Root object! - Is this really a PDF?'') # [])"
    by (rule disjI1)
  from o2 have d2: "pdfplumber_open broken_page_env (getvalue report_a) = Inl (U ''Unsupported encoding'')
      \<or> pdfplumber_open broken_page_env (getvalue report_a)
        = Inr (map ExtractReturns [Some (U ''Revenue: 100'')] @ ExtractRaises (U ''Unsupported encoding'')
               # [ExtractReturns (Some (U ''Net Income: 10''))])"
    by (rule disjI2)
  note a = extraction_failure_gives_empty_text [OF h1, of empty_file
      "U ''No /Root object! - Is this really a PDF?''" "[]" "[]"]
  note b = extraction_failure_gives_empty_text [OF h2, of report_a "U ''Unsupported encoding''"
      "[Some (U ''Revenue: 100'')]" "[ExtractReturns (Some (U ''Net Income: 10''))]"]
  note c = extraction_failure_gives_empty_text [OF h3, of report_a "[]" "[]" "[]"]
  show ?thesis
    using a b c h1 h2 h3 o1 o2 o3 d1 d2 by blast
qed

subsection \<open>The script\<close>

lemmas extract_eval = extract_text_from_pdf_def cache_data_def value_key_uploaded_file
  extract_text_from_pdf_body_def read_pdf_def

lemmas analyze_eval = analyze_financial_text_with_gemini_def value_key_text_chunk
  analyze_financial_text_with_gemini_body_def

lemmas script_eval = run_script_def main_interface_def upload_handling_def analyze_flow_def

lemma body_effects:
  "x \<in> set (snd (extract_text_from_pdf_body e uf)) \<Longrightarrow> is_extraction x \<or> is_error x"
  by (auto simp: extract_text_from_pdf_body_def extraction_error_def split: option.splits sum.splits)

lemma extract_effects_subset:
  assumes "extract_cache_consistent e c"
  shows "set (snd (fst (extract_text_from_pdf e c uf))) \<subseteq> set (snd (extract_text_from_pdf_body e uf))"
proof (cases "c [uf]")
  case None
  then show ?thesis
    by (simp add: extract_text_from_pdf_def cache_data_def value_key_uploaded_file)
next
  case (Some cached)
  with extract_hit [OF assms Some] show ?thesis
    by (simp add: extract_text_from_pdf_def cache_data_def value_key_uploaded_file)
qed

lemma extract_effects_no_remote_call:
  assumes "extract_cache_consistent e c"
  shows "filter is_remote_call (snd (fst (extract_text_from_pdf e c uf))) = []"
proof -
  have "\<not> is_remote_call x" if "x \<in> set (snd (fst (extract_text_from_pdf e c uf)))" for x
  proof -
    from that extract_effects_subset [OF assms] have "is_extraction x \<or> is_error x"
      using body_effects by blast
    then show ?thesis by (cases x) auto
  qed
  then show ?thesis by (simp add: filter_empty_conv)
qed

lemma upload_handling_caches:
  "extract_cache (upload_handling s f) = extract_cache s"
  "analyze_cache (upload_handling s f) = analyze_cache s"
  by (simp_all add: upload_handling_def)

lemma upload_handling_name: "last_file_name (upload_handling s f) = Some (name f)"
  by (simp add: upload_handling_def)

lemma run_script_found:
  assumes "secrets_google_api_key e = Found api_key"
  shows "run_script e s i =
     (fst (main_interface e s i), page_setup @ [GenaiConfigure api_key] @ snd (main_interface e s i))"
  using assms by (simp add: run_script_def split_beta)

lemma main_interface_clicked:
  assumes "uploaded i = Some f" and "clicked i"
  shows "main_interface e s i =
     (fst (analyze_flow e (upload_handling s f) f),
      header @ [StButton] @ snd (analyze_flow e (upload_handling s f) f))"
  using assms by (simp add: main_interface_def split_beta Let_def)

lemma header_no_remote_call: "filter is_remote_call header = []"
  by (simp add: header_def)

lemma page_setup_no_remote_call: "filter is_remote_call page_setup = []"
  by (simp add: page_setup_def)

lemma main_interface_not_clicked:
  assumes "uploaded i = Some f" and "\<not> clicked i"
  shows "fst (main_interface e s i) = upload_handling s f"
  using assms by (simp add: main_interface_def)

lemma analyze_flow_short:
  assumes "length (fst (fst (extract_text_from_pdf e (extract_cache s) (Some f)))) \<le> 100"
  shows "analyze_flow e s f =
     (s\<lparr>extract_cache := snd (extract_text_from_pdf e (extract_cache s) (Some f)), analysis_result := JNull\<rparr>,
      snd (fst (extract_text_from_pdf e (extract_cache s) (Some f))) @ [insufficient_text_error])"
  using assms by (simp add: analyze_flow_def split_beta)

lemma analyze_flow_long:
  assumes "length (fst (fst (extract_text_from_pdf e (extract_cache s) (Some f)))) > 100"
  shows "analyze_flow e s f =
     (s\<lparr>extract_cache := snd (extract_text_from_pdf e (extract_cache s) (Some f)),
        analyze_cache := snd (analyze_financial_text_with_gemini e (analyze_cache s)
           (fst (fst (extract_text_from_pdf e (extract_cache s) (Some f))))),
        analysis_result := fst (fst (analyze_financial_text_with_gemini e (analyze_cache s)
           (fst (fst (extract_text_from_pdf e (extract_cache s) (Some f))))))\<rparr>,
      snd (fst (extract_text_from_pdf e (extract_cache s) (Some f)))
      @ snd (fst (analyze_financial_text_with_gemini e (analyze_cache s)
           (fst (fst (extract_text_from_pdf e (extract_cache s) (Some f)))))))"
proof -
  from assms have "fst (fst (extract_text_from_pdf e (extract_cache s) (Some f))) \<noteq> []" by auto
  with assms show ?thesis by (simp add: analyze_flow_def split_beta)
qed

lemma analyze_flow_name: "last_file_name (fst (analyze_flow e s f)) = last_file_name s"
  by (simp add: analyze_flow_def split_beta Let_def)

text \<open>
  Claim C4. When the button is pressed and the extracted text has at most 100 characters
  (the check of line 164 asks for more than 100; the empty text of a failed extraction
  is such a text), the run makes no call to the remote service and shows the error of
  line 169.
\<close>

theorem short_text_makes_no_remote_call:
  assumes "secrets_google_api_key e = Found api_key"
    and "extract_cache_consistent e (extract_cache s)"
    and "uploaded i = Some f" and "clicked i"
    and "length (fst (fst (extract_text_from_pdf e (extract_cache s) (Some f)))) \<le> 100"
  shows "filter is_remote_call (snd (run_script e s i)) = []
       \<and> insufficient_text_error \<in> set (snd (run_script e s i))"
proof -
  let ?s1 = "upload_handling s f"
  have short: "length (fst (fst (extract_text_from_pdf e (extract_cache ?s1) (Some f)))) \<le> 100"
    using assms(5) by (simp add: upload_handling_caches)
  have flow: "snd (analyze_flow e ?s1 f) =
      snd (fst (extract_text_from_pdf e (extract_cache s) (Some f))) @ [insufficient_text_error]"
    using analyze_flow_short [OF short] by (simp add: upload_handling_caches)
  have "filter is_remote_call (snd (analyze_flow e ?s1 f)) = []"
    by (simp add: flow extract_effects_no_remote_call [OF assms(2)] insufficient_text_error_def)
  then have 1: "filter is_remote_call (snd (run_script e s i)) = []"
    by (simp add: run_script_found [OF assms(1)] main_interface_clicked [OF assms(3,4)]
        page_setup_no_remote_call header_no_remote_call)
  have "insufficient_text_error \<in> set (snd (analyze_flow e ?s1 f))"
    by (simp add: flow)
  then have 2: "insufficient_text_error \<in> set (snd (run_script e s i))"
    by (simp add: run_script_found [OF assms(1)] main_interface_clicked [OF assms(3,4)])
  from 1 2 show ?thesis by simp
qed

theorem short_text_makes_no_remote_call_witness:
  "secrets_google_api_key working_env = Found (U ''secret'')
   \<and> extract_cache_consistent working_env (extract_cache initial_state)
   \<and> uploaded \<lparr>uploaded = Some short_file, clicked = True\<rparr> = Some short_file
   \<and> clicked \<lparr>uploaded = Some short_file, clicked = True\<rparr>
   \<and> fst (fst (extract_text_from_pdf working_env (extract_cache initial_state) (Some short_file))) = [65, 66, 67, 10]
   \<and> filter is_remote_call (snd (run_script working_env initial_state \<lparr>uploaded = Some short_file, clicked = True\<rparr>)) = []
   \<and> insufficient_text_error \<in> set (snd (run_script working_env initial_state \<lparr>uploaded = Some short_file, clicked = True\<rparr>))"
proof -
  have h1: "secrets_google_api_key working_env = Found (U ''secret'')"
    by (simp add: working_env_def)
  have h2: "extract_cache_consistent working_env (extract_cache initial_state)"
    by (simp add: initial_state_def extract_cache_consistent_def)
  have h3: "uploaded \<lparr>uploaded = Some short_file, clicked = True\<rparr> = Some short_file"
    and h4: "clicked \<lparr>uploaded = Some short_file, clicked = True\<rparr>"
    by simp_all
  have tx: "fst (fst (extract_text_from_pdf working_env (extract_cache initial_state) (Some short_file))) = [65, 66, 67, 10]"
    by (simp add: extract_eval initial_state_def working_env_def short_file_def)
  then have h5: "length (fst (fst (extract_text_from_pdf working_env (extract_cache initial_state) (Some short_file)))) \<le> 100"
    by simp
  show ?thesis
    using short_text_makes_no_remote_call [OF h1 h2 h3 h4 h5] h1 h2 tx by simp
qed

text \<open>
  Claim C10. When the button is pressed and the extracted text fails the check of line
  164, the stored result is \<^verbatim>\<open>None\<close> after the run, whatever it was before.
\<close>

theorem short_text_clears_result:
  assumes "secrets_google_api_key e = Found api_key"
    and "uploaded i = Some f" and "clicked i"
    and "length (fst (fst (extract_text_from_pdf e (extract_cache s) (Some f)))) \<le> 100"
  shows "analysis_result (fst (run_script e s i)) = JNull"
proof -
  let ?s1 = "upload_handling s f"
  have short: "length (fst (fst (extract_text_from_pdf e (extract_cache ?s1) (Some f)))) \<le> 100"
    using assms(4) by (simp add: upload_handling_caches)
  show ?thesis
    by (simp add: run_script_found [OF assms(1)] main_interface_clicked [OF assms(2,3)]
        analyze_flow_short [OF short])
qed

theorem short_text_clears_result_witness:
  "secrets_google_api_key working_env = Found (U ''secret'')
   \<and> uploaded \<lparr>uploaded = Some short_file, clicked = True\<rparr> = Some short_file
   \<and> clicked \<lparr>uploaded = Some short_file, clicked = True\<rparr>
   \<and> length (fst (fst (extract_text_from_pdf working_env (extract_cache shown_state) (Some short_file)))) = 4
   \<and> analysis_result shown_state = JObj [(U ''executive_summary'', JStr (U ''Sound.''))]
   \<and> analysis_result (fst (run_script working_env shown_state \<lparr>uploaded = Some short_file, clicked = True\<rparr>)) = JNull
   \<and> uploaded \<lparr>uploaded = Some short_report, clicked = True\<rparr> = Some short_report
   \<and> clicked \<lparr>uploaded = Some short_report, clicked = True\<rparr>
   \<and> last_file_name (fst (run_script working_env initial_state \<lparr>uploaded = Some report_a, clicked = True\<rparr>))
        = Some (name short_report)
   \<and> analysis_result (fst (run_script working_env initial_state \<lparr>uploaded = Some report_a, clicked = True\<rparr>))
        = JStr (prompt (replicate 101 65 @ [10]))
   \<and> length (fst (fst (extract_text_from_pdf working_env
         (extract_cache (fst (run_script working_env initial_state \<lparr>uploaded = Some report_a, clicked = True\<rparr>)))
         (Some short_report)))) = 4
   \<and> analysis_result (fst (run_script working_env
         (fst (run_script working_env initial_state \<lparr>uploaded = Some report_a, clicked = True\<rparr>))
         \<lparr>uploaded = Some short_report, clicked = True\<rparr>)) = JNull"
proof -
  let ?s = "fst (run_script working_env initial_state \<lparr>uploaded = Some report_a, clicked = True\<rparr>)"
  have h1: "secrets_google_api_key working_env = Found (U ''secret'')"
    by (simp add: working_env_def)
  have h2: "uploaded \<lparr>uploaded = Some short_file, clicked = True\<rparr> = Some short_file"
    and h3: "clicked \<lparr>uploaded = Some short_file, clicked = True\<rparr>"
    and h2': "uploaded \<lparr>uploaded = Some short_report, clicked = True\<rparr> = Some short_report"
    and h3': "clicked \<lparr>uploaded = Some short_report, clicked = True\<rparr>"
    by simp_all
  have len: "length (fst (fst (extract_text_from_pdf working_env (extract_cache shown_state) (Some short_file)))) = 4"
    by (simp add: extract_eval shown_state_def working_env_def short_file_def)
  then have h4: "length (fst (fst (extract_text_from_pdf working_env (extract_cache shown_state) (Some short_file)))) \<le> 100"
    by simp
  have shown: "analysis_result shown_state = JObj [(U ''executive_summary'', JStr (U ''Sound.''))]"
    by (simp add: shown_state_def)
  have ne: "[65, 66, 67] \<noteq> (replicate 101 65 :: 8 word list)"
  proof
    assume "[65, 66, 67] = (replicate 101 65 :: 8 word list)"
    then have "length [65, 66, 67 :: 8 word] = length (replicate 101 65 :: 8 word list)"
      by (rule arg_cong)
    then show False by simp
  qed
  have s_state: "last_file_name ?s = Some (name short_report)"
    "analysis_result ?s = JStr (prompt (replicate 101 65 @ [10]))"
    "extract_cache ?s [Some short_report] = None"
    using ne
    by (simp_all add: script_eval extract_eval analyze_eval working_env_def initial_state_def
        report_a_def short_report_def)
  have len': "length (fst (fst (extract_text_from_pdf working_env (extract_cache ?s) (Some short_report)))) = 4"
    using s_state(3)
    by (simp add: extract_text_from_pdf_def cache_data_def value_key_uploaded_file
        extract_text_from_pdf_body_def read_pdf_def working_env_def short_report_def)
  then have h4': "length (fst (fst (extract_text_from_pdf working_env (extract_cache ?s) (Some short_report)))) \<le> 100"
    by simp
  show ?thesis
    using short_text_clears_result [OF h1 h2 h3 h4] short_text_clears_result [OF h1 h2' h3' h4']
      h1 h2 h3 h2' h3' len len' shown s_state(1,2)
    by blast
qed

lemma upload_handling_new:
  assumes "last_file_name s \<noteq> Some (name f)"
  shows "upload_handling s f = s\<lparr>analysis_result := JNull, last_file_name := Some (name f)\<rparr>"
  using assms by (simp add: upload_handling_def)

lemma upload_handling_same:
  assumes "last_file_name s = Some (name f)"
  shows "upload_handling s f = s"
  using assms by (simp add: upload_handling_def)

lemma run_script_name:
  assumes "secrets_google_api_key e = Found api_key" and "uploaded i = Some f"
  shows "last_file_name (fst (run_script e s i)) = Some (name f)"
proof (cases "clicked i")
  case True
  show ?thesis
    by (simp add: run_script_found [OF assms(1)] main_interface_clicked [OF assms(2) True]
        analyze_flow_name upload_handling_name)
next
  case False
  show ?thesis
    by (simp add: run_script_found [OF assms(1)] main_interface_not_clicked [OF assms(2) False]
        upload_handling_name)
qed

text \<open>
  Claim C5. In a run whose uploader holds a file with a name other than the stored one,
  the stored result is cleared and the stored name becomes the name of the file (lines
  158 to 160) before the button is looked at (line 162): the run is the run from the
  cleared state, the stored name is the new one after the run, the stored result is
  \<^verbatim>\<open>None\<close> when the button was not pressed, and a pressed button runs the analysis
  from the cleared state. (The uploader exists only when the credential was found.)
\<close>

theorem new_upload_clears_result_first:
  assumes "secrets_google_api_key e = Found api_key"
    and "uploaded i = Some f"
    and "last_file_name s \<noteq> Some (name f)"
  shows "run_script e s i = run_script e (s\<lparr>analysis_result := JNull, last_file_name := Some (name f)\<rparr>) i
       \<and> last_file_name (fst (run_script e s i)) = Some (name f)
       \<and> (\<not> clicked i \<longrightarrow> analysis_result (fst (run_script e s i)) = JNull)
       \<and> (clicked i \<longrightarrow> fst (run_script e s i)
             = fst (analyze_flow e (s\<lparr>analysis_result := JNull, last_file_name := Some (name f)\<rparr>) f))"
proof -
  let ?cleared = "s\<lparr>analysis_result := JNull, last_file_name := Some (name f)\<rparr>"
  have up: "upload_handling s f = ?cleared"
    by (rule upload_handling_new [OF assms(3)])
  have up': "upload_handling ?cleared f = ?cleared"
    by (rule upload_handling_same) simp
  have "main_interface e s i = main_interface e ?cleared i"
    using assms(2) by (simp add: main_interface_def up up')
  then have 1: "run_script e s i = run_script e ?cleared i"
    by (simp add: run_script_found [OF assms(1)])
  have 2: "last_file_name (fst (run_script e s i)) = Some (name f)"
    by (rule run_script_name [OF assms(1,2)])
  have 3: "analysis_result (fst (run_script e s i)) = JNull" if "\<not> clicked i"
    by (simp add: run_script_found [OF assms(1)] main_interface_not_clicked [OF assms(2) that] up)
  have 4: "fst (run_script e s i) = fst (analyze_flow e ?cleared f)" if "clicked i"
    by (simp add: run_script_found [OF assms(1)] main_interface_clicked [OF assms(2) that] up)
  from 1 2 3 4 show ?thesis by blast
qed

theorem new_upload_clears_result_first_witness:
  "secrets_google_api_key working_env = Found (U ''secret'')
   \<and> uploaded \<lparr>uploaded = Some short_file, clicked = False\<rparr> = Some short_file
   \<and> uploaded \<lparr>uploaded = Some short_file, clicked = True\<rparr> = Some short_file
   \<and> last_file_name shown_state \<noteq> Some (name short_file)
   \<and> analysis_result shown_state \<noteq> JNull
   \<and> \<not> clicked \<lparr>uploaded = Some short_file, clicked = False\<rparr>
   \<and> analysis_result (fst (run_script working_env shown_state \<lparr>uploaded = Some short_file, clicked = False\<rparr>)) = JNull
   \<and> last_file_name (fst (run_script working_env shown_state \<lparr>uploaded = Some short_file, clicked = False\<rparr>))
        = Some (U ''short.pdf'')
   \<and> clicked \<lparr>uploaded = Some short_file, clicked = True\<rparr>
   \<and> fst (run_script working_env shown_state \<lparr>uploaded = Some short_file, clicked = True\<rparr>)
        = fst (analyze_flow working_env
                 (shown_state\<lparr>analysis_result := JNull, last_file_name := Some (U ''short.pdf'')\<rparr>) short_file)"
proof -
  have h1: "secrets_google_api_key working_env = Found (U ''secret'')"
    by (simp add: working_env_def)
  have h2: "uploaded \<lparr>uploaded = Some short_file, clicked = False\<rparr> = Some short_file"
    and h2': "uploaded \<lparr>uploaded = Some short_file, clicked = True\<rparr> = Some short_file"
    by simp_all
  have h3: "last_file_name shown_state \<noteq> Some (name short_file)"
    by (simp add: shown_state_def short_file_def U_def)
  have nm: "name short_file = U ''short.pdf''"
    by (simp add: short_file_def)
  have shown: "analysis_result shown_state \<noteq> JNull"
    by (simp add: shown_state_def)
  have nc: "\<not> clicked \<lparr>uploaded = Some short_file, clicked = False\<rparr>"
    and cl: "clicked \<lparr>uploaded = Some short_file, clicked = True\<rparr>"
    by simp_all
  show ?thesis
    using new_upload_clears_result_first [OF h1 h2 h3, unfolded nm]
      new_upload_clears_result_first [OF h1 h2' h3, unfolded nm]
      h1 h2 h2' h3 shown nc cl
    by blast
qed

text \<open>
  Claim C9. The stored identity is the name of the file (line 158 compares
  \<^verbatim>\<open>uploaded_file.name\<close>): after a run with a file in the uploader, a run with a file of
  the same name, whatever its bytes, and no press of the button leaves the whole state,
  and so the stored result, as it was.
\<close>

theorem same_name_upload_keeps_result:
  assumes "secrets_google_api_key e1 = Found key1"
    and "secrets_google_api_key e2 = Found key2"
    and "name f2 = name f1"
  shows "fst (run_script e2 (fst (run_script e1 s \<lparr>uploaded = Some f1, clicked = b\<rparr>))
              \<lparr>uploaded = Some f2, clicked = False\<rparr>)
         = fst (run_script e1 s \<lparr>uploaded = Some f1, clicked = b\<rparr>)"
proof -
  let ?s1 = "fst (run_script e1 s \<lparr>uploaded = Some f1, clicked = b\<rparr>)"
  have "last_file_name ?s1 = Some (name f2)"
    using run_script_name [OF assms(1), of "\<lparr>uploaded = Some f1, clicked = b\<rparr>" f1 s] assms(3) by simp
  then have "upload_handling ?s1 f2 = ?s1"
    by (rule upload_handling_same)
  then show ?thesis
    by (simp add: run_script_found [OF assms(2)] main_interface_not_clicked [of _ f2])
qed

theorem same_name_upload_keeps_result_witness:
  "secrets_google_api_key working_env = Found (U ''secret'')
   \<and> name report_b = name report_a
   \<and> getvalue report_b \<noteq> getvalue report_a
   \<and> analysis_result (fst (run_script working_env initial_state \<lparr>uploaded = Some report_a, clicked = True\<rparr>))
        = JStr (prompt (replicate 101 65 @ [10]))
   \<and> analysis_result (fst (run_script working_env
          (fst (run_script working_env initial_state \<lparr>uploaded = Some report_a, clicked = True\<rparr>))
          \<lparr>uploaded = Some report_b, clicked = False\<rparr>))
        = JStr (prompt (replicate 101 65 @ [10]))"
proof -
  have h1: "secrets_google_api_key working_env = Found (U ''secret'')"
    by (simp add: working_env_def)
  have h2: "name report_b = name report_a"
    by (simp add: report_a_def report_b_def)
  have diff: "getvalue report_b \<noteq> getvalue report_a"
    by (simp add: report_a_def report_b_def)
  have first: "analysis_result (fst (run_script working_env initial_state \<lparr>uploaded = Some report_a, clicked = True\<rparr>))
        = JStr (prompt (replicate 101 65 @ [10]))"
    by (simp add: script_eval extract_eval analyze_eval working_env_def initial_state_def report_a_def)
  show ?thesis
    using same_name_upload_keeps_result [OF h1 h1 h2, of initial_state True] h1 h2 diff first
    by simp
qed

text \<open>
  Claim C7. When the lookup of the credential raises \<^verbatim>\<open>KeyError\<close> or
  \<^verbatim>\<open>FileNotFoundError\<close>, the run shows the error and the hint of lines 41 and 42 and
  stops: the state is unchanged, the effects are the page setup and these two messages,
  and among them there is no extraction, no remote call, no uploader and no button.
\<close>

theorem missing_credential_stops_script:
  assumes "secrets_google_api_key e = KeyError \<or> secrets_google_api_key e = FileNotFoundError"
  shows "run_script e s i = (s, page_setup @ configuration_errors)
       \<and> filter (\<lambda>x. is_extraction x \<or> is_remote_call x \<or> x = StFileUploader \<or> x = StButton)
            (snd (run_script e s i)) = []
       \<and> filter is_error (snd (run_script e s i)) = [hd configuration_errors]"
proof -
  from assms have "run_script e s i = (s, page_setup @ configuration_errors)"
    by (auto simp: run_script_def)
  then show ?thesis
    by (simp add: page_setup_def configuration_errors_def)
qed

theorem missing_credential_stops_script_witness:
  "secrets_google_api_key unconfigured_env = KeyError
   \<and> run_script unconfigured_env shown_state \<lparr>uploaded = Some report_a, clicked = True\<rparr>
        = (shown_state, page_setup @ configuration_errors)
   \<and> filter (\<lambda>x. is_extraction x \<or> is_remote_call x \<or> x = StFileUploader \<or> x = StButton)
        (snd (run_script unconfigured_env shown_state \<lparr>uploaded = Some report_a, clicked = True\<rparr>)) = []"
proof -
  have h: "secrets_google_api_key unconfigured_env = KeyError"
    by (simp add: unconfigured_env_def)
  then have h': "secrets_google_api_key unconfigured_env = KeyError
      \<or> secrets_google_api_key unconfigured_env = FileNotFoundError"
    by simp
  show ?thesis
    using missing_credential_stops_script [OF h', of shown_state "\<lparr>uploaded = Some report_a, clicked = True\<rparr>"] h
    by blast
qed

subsection \<open>The extraction cache in a session\<close>

text \<open>
  The invariant of the statements above holds at the start and after every run, as long
  as pdfplumber computes the same pages from the same bytes in every run.
\<close>

lemma body_depends_on_pdfplumber:
  assumes "pdfplumber_open e' = pdfplumber_open e"
  shows "extract_text_from_pdf_body e' uf = extract_text_from_pdf_body e uf"
proof -
  have "read_pdf e' file_bytes = read_pdf e file_bytes" for file_bytes
    by (simp add: read_pdf_def assms)
  then show ?thesis
    by (cases uf) (simp_all add: extract_text_from_pdf_body_def)
qed

lemma consistent_depends_on_pdfplumber:
  assumes "pdfplumber_open e' = pdfplumber_open e"
  shows "extract_cache_consistent e' c = extract_cache_consistent e c"
  by (simp add: extract_cache_consistent_def body_depends_on_pdfplumber [OF assms])

lemma analyze_flow_keeps_consistency:
  assumes "extract_cache_consistent e (extract_cache s)"
  shows "extract_cache_consistent e (extract_cache (fst (analyze_flow e s f)))"
  using extract_cache_stays_consistent [OF assms, of "Some f"]
  by (simp add: analyze_flow_def split_beta Let_def)

lemma run_script_keeps_consistency:
  assumes "extract_cache_consistent e (extract_cache s)"
  shows "extract_cache_consistent e (extract_cache (fst (run_script e s i)))"
proof -
  have "extract_cache_consistent e (extract_cache (fst (main_interface e s i)))"
  proof (cases "uploaded i")
    case None
    with assms show ?thesis by (simp add: main_interface_def)
  next
    case (Some f)
    have "extract_cache_consistent e (extract_cache (upload_handling s f))"
      using assms by (simp add: upload_handling_caches)
    from analyze_flow_keeps_consistency [OF this] this Some show ?thesis
      by (simp add: main_interface_def split_beta Let_def)
  qed
  with assms show ?thesis
    by (simp add: run_script_def split_beta split: secret_lookup.splits)
qed

lemma run_session_keeps_consistency:
  assumes "extract_cache_consistent e0 (extract_cache s)"
    and "\<forall>(e, i) \<in> set runs. pdfplumber_open e = pdfplumber_open e0"
  shows "extract_cache_consistent e0 (extract_cache (fst (run_session s runs)))"
  using assms
proof (induction runs arbitrary: s)
  case Nil
  then show ?case by simp
next
  case (Cons r runs)
  obtain e i where r: "r = (e, i)" by (cases r)
  with Cons.prems have same: "pdfplumber_open e = pdfplumber_open e0" by simp
  have "extract_cache_consistent e (extract_cache (fst (run_script e s i)))"
    using Cons.prems(1) run_script_keeps_consistency consistent_depends_on_pdfplumber [OF same] by blast
  then have "extract_cache_consistent e0 (extract_cache (fst (run_script e s i)))"
    by (simp add: consistent_depends_on_pdfplumber [OF same])
  from Cons.IH [OF this] Cons.prems(2) show ?case
    by (simp add: r split_beta)
qed

lemma initial_state_consistent: "extract_cache_consistent e (extract_cache initial_state)"
  by (simp add: initial_state_def extract_cache_consistent_empty)

subsection \<open>The prompt\<close>

lemma prompt_before_ends: "suffix (U ''---'' @ [10] @ U ''    '') prompt_before"
  unfolding prompt_before_def
  by (simp add: lines_of_def U_def suffix_def)

lemma prompt_after_begins: "prefix (U '' '' @ [10] @ U ''    ---'') prompt_after"
  unfolding prompt_after_def
  by (simp add: lines_of_def U_def)

text \<open>
  Claim C8. The prompt is one string, a function of the extracted text and of nothing
  else: the text before the placeholder, the extracted text as it is, the text after the
  placeholder. The text before ends with a line of three dashes and the indentation of
  the next line; the text after begins with a space, a newline and a line of three
  dashes.
\<close>

theorem prompt_embeds_text_between_separators:
  "prompt text_chunk = prompt_before @ text_chunk @ prompt_after
   \<and> suffix (U ''---'' @ [10] @ U ''    '') prompt_before
   \<and> prefix (U '' '' @ [10] @ U ''    ---'') prompt_after
   \<and> sublist text_chunk (prompt text_chunk)"
  using prompt_before_ends prompt_after_begins
  by (simp add: prompt_def sublist_appendI)

subsection \<open>The analysis and its cache\<close>

lemma analyze_cache_filled:
  "snd (analyze_financial_text_with_gemini e c text_chunk) [] \<noteq> None"
  by (simp add: analyze_financial_text_with_gemini_def cache_data_def value_key_text_chunk split: option.splits)

lemma analyze_cache_ignores_text:
  assumes "c [] = Some cached"
  shows "analyze_financial_text_with_gemini e c text_chunk = (cached, c)"
  using assms by (simp add: analyze_financial_text_with_gemini_def cache_data_def value_key_text_chunk)



text \<open>
  Claim C1, at a concrete session. The button is pressed on a first file and then on a
  second file with another text; the service would answer each prompt with another
  value. The whole session calls the service once, with the first text, and the result
  stored after the second run is the answer to the first text: the key of the cache
  does not hold the text (\<open>value_key_text_chunk\<close>, \<open>analyze_cache_ignores_text\<close>).
\<close>

theorem second_text_gets_first_result:
  "fst (fst (extract_text_from_pdf working_env Map.empty (Some report_a))) = replicate 101 65 @ [10]
   \<and> fst (fst (extract_text_from_pdf working_env Map.empty (Some report_b))) = replicate 101 66 @ [10]
   \<and> filter is_remote_call (snd (run_session initial_state two_reports_session))
        = [remote_call (replicate 101 65 @ [10])]
   \<and> analysis_result (fst (run_session initial_state two_reports_session))
        = JStr (prompt (replicate 101 65 @ [10]))
   \<and> fst (analyze_financial_text_with_gemini_body working_env (replicate 101 66 @ [10]))
        = JStr (prompt (replicate 101 66 @ [10]))
   \<and> prompt (replicate 101 66 @ [10]) \<noteq> prompt (replicate 101 65 @ [10])"
  by (simp add: two_reports_session_def script_eval extract_eval analyze_eval working_env_def
      initial_state_def report_a_def report_b_def remote_call_def page_setup_def header_def prompt_def)


lemma upload_handling_keeps_result_from_cache:
  assumes "result_from_cache s"
  shows "result_from_cache (upload_handling s f)"
  using assms by (simp add: result_from_cache_def upload_handling_def split: option.splits)

lemma analyze_result_is_entry:
  "\<exists>fx. snd (analyze_financial_text_with_gemini e c text_chunk) []
          = Some (fst (fst (analyze_financial_text_with_gemini e c text_chunk)), fx)"
proof (cases "c []")
  case None
  then show ?thesis
    by (simp add: analyze_financial_text_with_gemini_def cache_data_def value_key_text_chunk)
next
  case (Some cached)
  then show ?thesis
    by (cases cached)
      (simp add: analyze_financial_text_with_gemini_def cache_data_def value_key_text_chunk)
qed

lemma analyze_flow_keeps_result_from_cache:
  assumes "result_from_cache s"
  shows "result_from_cache (fst (analyze_flow e s f))"
proof (cases "100 < length (fst (fst (extract_text_from_pdf e (extract_cache s) (Some f))))")
  case True
  obtain fx where "snd (analyze_financial_text_with_gemini e (analyze_cache s)
        (fst (fst (extract_text_from_pdf e (extract_cache s) (Some f))))) []
      = Some (fst (fst (analyze_financial_text_with_gemini e (analyze_cache s)
        (fst (fst (extract_text_from_pdf e (extract_cache s) (Some f)))))), fx)"
    using analyze_result_is_entry by blast
  then show ?thesis
    by (simp add: analyze_flow_long [OF True] result_from_cache_def)
next
  case False
  then have short: "length (fst (fst (extract_text_from_pdf e (extract_cache s) (Some f)))) \<le> 100"
    by simp
  show ?thesis
    by (simp add: analyze_flow_short [OF short] result_from_cache_def split: option.splits)
qed

lemma run_script_keeps_result_from_cache:
  assumes "result_from_cache s"
  shows "result_from_cache (fst (run_script e s i))"
proof -
  have "result_from_cache (fst (main_interface e s i))"
  proof (cases "uploaded i")
    case None
    with assms show ?thesis by (simp add: main_interface_def)
  next
    case (Some f)
    have up: "result_from_cache (upload_handling s f)"
      by (rule upload_handling_keeps_result_from_cache [OF assms])
    from analyze_flow_keeps_result_from_cache [OF up] up Some show ?thesis
      by (simp add: main_interface_def split_beta Let_def)
  qed
  with assms show ?thesis
    by (simp add: run_script_def split_beta split: secret_lookup.splits)
qed

lemma run_session_keeps_result_from_cache:
  assumes "result_from_cache s"
  shows "result_from_cache (fst (run_session s runs))"
  using assms
proof (induction runs arbitrary: s)
  case Nil
  then show ?case by simp
next
  case (Cons r runs)
  obtain e i where r: "r = (e, i)" by (cases r)
  have "result_from_cache (fst (run_script e s i))"
    by (rule run_script_keeps_result_from_cache [OF Cons.prems])
  from Cons.IH [OF this] show ?case
    by (simp add: r split_beta)
qed




end
